theory Spec2Isabelle
  imports Complex_Main "HOL-Library.Char_ord" "HOL-Library.List_Lexorder" "HOL-Library.Sublist"
    "HOL-Library.AList"
begin

chapter \<open>The program\<close>

section \<open>Python values and string primitives\<close>

text \<open>
  Strings are lists of \<^typ>\<open>char\<close>, each character read as a code point below 256
  (Latin-1), which covers every character the patterns and word lists of
  \<^verbatim>\<open>actions.py\<close> mention but the typographic apostrophe of one \<^verbatim>\<open>strip\<close> call
  (see \<open>strip_apostrophes\<close>). A cell of a SQLite row, a slot value or an entity
  value is \<^verbatim>\<open>None\<close>, an integer or a string (the \<^verbatim>\<open>matches\<close> table has
  only TEXT and INTEGER columns). Integers are unbounded, as in Python; the limit that
  recent Python versions put on the digits of \<^verbatim>\<open>str(n)\<close> and \<^verbatim>\<open>int(s)\<close> is not
  modelled.
\<close>

datatype pyval = PNone | PInt int | PStr string

datatype py_error = AttributeError | KeyError | ZeroDivisionError | DatabaseError

text \<open>Truth value of an object, as used by \<^verbatim>\<open>not x\<close> and \<^verbatim>\<open>x or y\<close>.\<close>

fun py_truthy :: "pyval \<Rightarrow> bool" where
  "py_truthy PNone = False"
| "py_truthy (PInt n) = (n \<noteq> 0)"
| "py_truthy (PStr s) = (s \<noteq> [])"

definition py_or :: "pyval \<Rightarrow> pyval \<Rightarrow> pyval" where
  "py_or a b = (if py_truthy a then a else b)"

text \<open>\<^verbatim>\<open>str(x)\<close>: decimal digits for an integer, the text itself for a string.\<close>

fun str_of_nat :: "nat \<Rightarrow> string" where
  "str_of_nat n =
     (if n < 10 then [char_of (48 + n)]
      else str_of_nat (n div 10) @ [char_of (48 + n mod 10)])"

declare str_of_nat.simps [simp del]

definition str_of_int :: "int \<Rightarrow> string" where
  "str_of_int i = (if i < 0 then CHR ''-'' # str_of_nat (nat (- i)) else str_of_nat (nat i))"

fun py_str :: "pyval \<Rightarrow> string" where
  "py_str PNone = ''None''"
| "py_str (PInt n) = str_of_int n"
| "py_str (PStr s) = s"

text \<open>\<^verbatim>\<open>str.isspace\<close> on one character: the code points below 256 that Python
  counts as whitespace.\<close>

definition py_isspace :: "char \<Rightarrow> bool" where
  "py_isspace c = ((of_char c :: nat) \<in> {9, 10, 11, 12, 13, 28, 29, 30, 31, 32, 133, 160})"

text \<open>\<^verbatim>\<open>s.strip()\<close> with no argument, and \<^verbatim>\<open>s.strip(chars)\<close>.\<close>

definition strip_chars :: "(char \<Rightarrow> bool) \<Rightarrow> string \<Rightarrow> string" where
  "strip_chars p s = rev (dropWhile p (rev (dropWhile p s)))"

definition py_strip :: "string \<Rightarrow> string" where
  "py_strip s = strip_chars py_isspace s"

text \<open>\<^verbatim>\<open>s.lower()\<close>: A-Z and the accented capitals U+00C0..U+00DE (without the
  multiplication sign U+00D7) move up by 32; every other character stays.\<close>

definition lower_char :: "char \<Rightarrow> char" where
  "lower_char c =
     (let n = (of_char c :: nat) in
      if (65 \<le> n \<and> n \<le> 90) \<or> (192 \<le> n \<and> n \<le> 214) \<or> (216 \<le> n \<and> n \<le> 222)
      then char_of (n + 32) else c)"

definition py_lower :: "string \<Rightarrow> string" where
  "py_lower s = map lower_char s"

text \<open>A method call \<^verbatim>\<open>x.strip()\<close> on an arbitrary object: only strings have the
  method, anything else raises \<^verbatim>\<open>AttributeError\<close>.\<close>

fun strip_method :: "pyval \<Rightarrow> py_error + string" where
  "strip_method (PStr s) = Inr (py_strip s)"
| "strip_method _ = Inl AttributeError"

definition err_bind :: "'e + 'a \<Rightarrow> ('a \<Rightarrow> 'e + 'b) \<Rightarrow> 'e + 'b" where
  "err_bind m f = (case m of Inl e \<Rightarrow> Inl e | Inr x \<Rightarrow> f x)"

section \<open>Match signature\<close>

text \<open>A row reaches \<^verbatim>\<open>make_match_signature\<close> either as a dictionary of named
  fields or as the raw tuple of the cursor.\<close>

datatype row = Dict "string \<rightharpoonup> pyval" | Tuple "pyval list"

type_synonym signature = "string \<times> string \<times> string \<times> string list \<times> string \<times> string"

text \<open>\<^verbatim>\<open>row.get(key)\<close>: \<^verbatim>\<open>None\<close> for a missing key.\<close>

definition dict_get :: "(string \<rightharpoonup> pyval) \<Rightarrow> string \<Rightarrow> pyval" where
  "dict_get d k = (case d k of None \<Rightarrow> PNone | Some v \<Rightarrow> v)"

text \<open>\<^verbatim>\<open>(v or "").strip().lower()\<close> and \<^verbatim>\<open>(v or "").strip()\<close>.\<close>

definition strip_lower_field :: "pyval \<Rightarrow> py_error + string" where
  "strip_lower_field v = err_bind (strip_method (py_or v (PStr ''''))) (\<lambda>s. Inr (py_lower s))"

definition strip_field :: "pyval \<Rightarrow> py_error + string" where
  "strip_field v = strip_method (py_or v (PStr ''''))"

text \<open>The tail shared by both branches, from the extracted local variables.\<close>

definition signature_of_fields ::
  "pyval \<Rightarrow> string \<Rightarrow> string \<Rightarrow> pyval \<Rightarrow> string \<Rightarrow> string \<Rightarrow> string \<Rightarrow> signature" where
  "signature_of_fields tourney_date tourney_name round_name match_num winner_id loser_id score =
     (py_str (py_or tourney_date (PStr '''')),
      tourney_name,
      round_name,
      sort [winner_id, loser_id],
      py_str (py_or match_num (PStr '''')),
      score)"

fun make_match_signature :: "row \<Rightarrow> py_error + signature" where
  "make_match_signature (Dict d) =
     (let tourney_date = dict_get d ''tourney_date'' in
      err_bind (strip_lower_field (dict_get d ''tourney_name'')) (\<lambda>tourney_name.
      err_bind (strip_lower_field (dict_get d ''round'')) (\<lambda>round_name.
      let match_num = dict_get d ''match_num'';
          winner_id = py_str (py_or (dict_get d ''winner_id'') (PStr ''''));
          loser_id = py_str (py_or (dict_get d ''loser_id'') (PStr ''''))
      in
      err_bind (strip_field (dict_get d ''score'')) (\<lambda>score.
      Inr (signature_of_fields tourney_date tourney_name round_name match_num
             winner_id loser_id score)))))"
| "make_match_signature (Tuple r) =
     (let tourney_date = (if length r > 5 then r ! 5 else PNone) in
      err_bind (if length r > 1 then strip_lower_field (r ! 1) else Inr '''') (\<lambda>tourney_name.
      err_bind (if length r > 13 then strip_lower_field (r ! 13) else Inr '''') (\<lambda>round_name.
      let match_num = (if length r > 6 then r ! 6 else PNone);
          winner_id = (if length r > 7 then py_str (py_or (r ! 7) (PStr '''')) else '''');
          loser_id = (if length r > 8 then py_str (py_or (r ! 8) (PStr '''')) else '''')
      in
      err_bind (if length r > 11 then strip_field (r ! 11) else Inr '''') (\<lambda>score.
      Inr (signature_of_fields tourney_date tourney_name round_name match_num
             winner_id loser_id score)))))"

section \<open>Rows of the matches table\<close>

text \<open>The column order of \<^verbatim>\<open>CREATE TABLE matches\<close> in \<^verbatim>\<open>db_create.py\<close>, which is the
  order of the cells of a raw row of \<^verbatim>\<open>SELECT * FROM matches\<close> and of
  \<^verbatim>\<open>cursor.description\<close>.\<close>

definition matches_columns :: "string list" where
  "matches_columns =
     [''match_id'', ''tourney_name'', ''surface'', ''draw_size'', ''tourney_level'',
      ''tourney_date'', ''match_num'', ''winner_id'', ''loser_id'', ''winner_seed'',
      ''loser_seed'', ''score'', ''best_of'', ''round'', ''minutes'',
      ''w_ace'', ''w_df'', ''w_svpt'', ''w_1stIn'', ''w_1stWon'', ''w_2ndWon'',
      ''w_SvGms'', ''w_bpSaved'', ''w_bpFaced'',
      ''l_ace'', ''l_df'', ''l_svpt'', ''l_1stIn'', ''l_1stWon'', ''l_2ndWon'',
      ''l_SvGms'', ''l_bpSaved'', ''l_bpFaced'', ''ongoing'']"

text \<open>\<^verbatim>\<open>dict(zip(columns, raw))\<close>: later pairs override earlier ones.\<close>

definition row_as_dict :: "string list \<Rightarrow> pyval list \<Rightarrow> (string \<rightharpoonup> pyval)" where
  "row_as_dict columns raw = Map.empty(columns [\<mapsto>] raw)"

text \<open>A full row on which both paths are evaluated.\<close>

definition sample_raw :: "pyval list" where
  "sample_raw =
     [PInt 17, PStr '' Roma Masters'', PStr ''Clay'', PInt 64, PStr ''M'',
      PStr ''20220509'', PInt 281, PStr ''104925'', PStr ''100644'', PNone,
      PStr ''3'', PStr ''6-3 6-4 '', PInt 3, PStr ''SF'', PInt 95]
     @ replicate 18 PNone @ [PInt 0]"

section \<open>Deduplication\<close>

text \<open>The loop of \<^verbatim>\<open>deduplicate_matches\<close>, with its two local variables \<^verbatim>\<open>seen\<close>
  and \<^verbatim>\<open>unique_rows\<close>; an exception of \<^verbatim>\<open>make_match_signature\<close> leaves the loop.\<close>

fun dedup_loop :: "signature set \<Rightarrow> row list \<Rightarrow> row list \<Rightarrow> py_error + row list" where
  "dedup_loop seen unique_rows [] = Inr unique_rows"
| "dedup_loop seen unique_rows (row # rows) =
     (case make_match_signature row of
        Inl e \<Rightarrow> Inl e
      | Inr key \<Rightarrow>
          if key \<notin> seen then dedup_loop (insert key seen) (unique_rows @ [row]) rows
          else dedup_loop seen unique_rows rows)"

definition deduplicate_matches :: "row list \<Rightarrow> py_error + row list" where
  "deduplicate_matches rows = dedup_loop {} [] rows"

text \<open>Three rows for evaluation: the second is the first with winner and loser
  swapped and another \<^verbatim>\<open>match_id\<close>, as a second feed would deliver it.\<close>

definition row_a :: row where
  "row_a = Dict [''match_id'' \<mapsto> PInt 1, ''tourney_name'' \<mapsto> PStr ''Roma'',
     ''tourney_date'' \<mapsto> PStr ''20220509'', ''round'' \<mapsto> PStr ''F'', ''match_num'' \<mapsto> PInt 300,
     ''winner_id'' \<mapsto> PStr ''104925'', ''loser_id'' \<mapsto> PStr ''126774'', ''score'' \<mapsto> PStr ''6-0 7-6'']"

definition row_b :: row where
  "row_b = Dict [''match_id'' \<mapsto> PInt 2, ''tourney_name'' \<mapsto> PStr ''ROMA '',
     ''tourney_date'' \<mapsto> PStr ''20220509'', ''round'' \<mapsto> PStr ''f'', ''match_num'' \<mapsto> PInt 300,
     ''winner_id'' \<mapsto> PStr ''126774'', ''loser_id'' \<mapsto> PStr ''104925'', ''score'' \<mapsto> PStr ''6-0 7-6'']"

definition row_c :: row where
  "row_c = Dict [''match_id'' \<mapsto> PInt 3, ''tourney_name'' \<mapsto> PStr ''Roma'',
     ''tourney_date'' \<mapsto> PStr ''20220509'', ''round'' \<mapsto> PStr ''SF'', ''match_num'' \<mapsto> PInt 299,
     ''winner_id'' \<mapsto> PStr ''104925'', ''loser_id'' \<mapsto> PStr ''100644'', ''score'' \<mapsto> PStr ''6-3 6-4'']"

section \<open>Year and surface normalisation\<close>

text \<open>The surface codes of the database, the keys of \<^verbatim>\<open>SURFACE_LABELS\<close>.\<close>

definition VALID_SURFACE_CODES :: "string set" where
  "VALID_SURFACE_CODES = {''Hard'', ''Grass'', ''Clay'', ''Carpet''}"

text \<open>\<^verbatim>\<open>SURFACE_KEYWORDS\<close>, in the insertion order that \<^verbatim>\<open>.items()\<close> iterates.\<close>

definition SURFACE_KEYWORDS :: "(string \<times> string) list" where
  "SURFACE_KEYWORDS =
     [(''terra battuta'', ''Clay''),
      (''terra'', ''Clay''),
      (''clay'', ''Clay''),
      (''erba'', ''Grass''),
      (''grass'', ''Grass''),
      (''cemento'', ''Hard''),
      (''cement'', ''Hard''),
      (''hard'', ''Hard''),
      (''moquette'', ''Carpet''),
      (''carpet'', ''Carpet'')]"

text \<open>The character classes \<^verbatim>\<open>\d\<close> and \<^verbatim>\<open>\w\<close> of \<^verbatim>\<open>re\<close> on text, for code points
  below 256.\<close>

definition re_digit :: "char \<Rightarrow> bool" where
  "re_digit c = (let n = (of_char c :: nat) in 48 \<le> n \<and> n \<le> 57)"

definition re_word :: "char \<Rightarrow> bool" where
  "re_word c =
     (let n = (of_char c :: nat) in
      (48 \<le> n \<and> n \<le> 57) \<or> (65 \<le> n \<and> n \<le> 90) \<or> n = 95 \<or> (97 \<le> n \<and> n \<le> 122)
      \<or> n = 170 \<or> n = 178 \<or> n = 179 \<or> n = 181 \<or> n = 185 \<or> n = 186
      \<or> (188 \<le> n \<and> n \<le> 190) \<or> (192 \<le> n \<and> n \<le> 214) \<or> (216 \<le> n \<and> n \<le> 246)
      \<or> 248 \<le> n)"

text \<open>\<^verbatim>\<open>(19|20)\d{2}\<close> matched at the head of the text.\<close>

fun year_prefix :: "string \<Rightarrow> bool" where
  "year_prefix (a # b # c # d # _) =
     (((a = CHR ''1'' \<and> b = CHR ''9'') \<or> (a = CHR ''2'' \<and> b = CHR ''0''))
      \<and> re_digit c \<and> re_digit d)"
| "year_prefix _ = False"

text \<open>\<^verbatim>\<open>re.search(r"(19|20)\d{2}", s)\<close>: the leftmost match, as \<^verbatim>\<open>group(0)\<close>.\<close>

fun search_year :: "string \<Rightarrow> string option" where
  "search_year [] = None"
| "search_year (c # cs) =
     (if year_prefix (c # cs) then Some (take 4 (c # cs)) else search_year cs)"

text \<open>\<^verbatim>\<open>re.search(r"\b(?:19|20)\d{2}\b", text)\<close>. The first argument tells whether the
  character before the current position is a word character; a match starts and ends
  with a digit, so \<^verbatim>\<open>\b\<close> asks for no word character before it and none after it.\<close>

fun search_year_bounded :: "bool \<Rightarrow> string \<Rightarrow> string option" where
  "search_year_bounded prev [] = None"
| "search_year_bounded prev (c # cs) =
     (if \<not> prev \<and> year_prefix (c # cs)
         \<and> (case drop 4 (c # cs) of [] \<Rightarrow> True | e # _ \<Rightarrow> \<not> re_word e)
      then Some (take 4 (c # cs))
      else search_year_bounded (re_word c) cs)"

definition opt_str :: "string option \<Rightarrow> pyval" where
  "opt_str m = (case m of None \<Rightarrow> PNone | Some s \<Rightarrow> PStr s)"

definition extract_year_from_text :: "string \<Rightarrow> string option" where
  "extract_year_from_text text = (if text = [] then None else search_year_bounded False text)"

definition extract_surface_from_text :: "string \<Rightarrow> string option" where
  "extract_surface_from_text text =
     (if text = [] then None
      else let s = py_lower text in
        map_option snd (find (\<lambda>(key, value). sublist key s) SURFACE_KEYWORDS))"

definition normalize_surface_value :: "pyval \<Rightarrow> string option" where
  "normalize_surface_value v =
     (if \<not> py_truthy v then None
      else case map_of SURFACE_KEYWORDS (py_lower (py_str v)) of
             Some code \<Rightarrow> Some code
           | None \<Rightarrow> extract_surface_from_text (py_str v))"

definition normalize_year_value :: "pyval \<Rightarrow> string option" where
  "normalize_year_value v = (if \<not> py_truthy v then None else search_year (py_str v))"

section \<open>Filter context\<close>

type_synonym entity = "string \<rightharpoonup> pyval"

record message =
  msg_intent_name :: "string option"
  msg_text :: "string option"
  msg_entities :: "entity list option"

record tracker =
  latest_message :: "message option"
  slots :: "string \<Rightarrow> pyval"

record FilterContext =
  intent_name :: string
  message_text :: string
  entities :: "entity list"
  year :: pyval
  surface :: pyval
  tournament :: pyval
  message_year :: pyval
  message_surface :: pyval
  message_tournament :: pyval
  slot_year :: pyval
  slot_surface :: pyval
  slot_tournament :: pyval
  explicit_year :: bool
  explicit_surface :: bool
  explicit_tournament :: bool

text \<open>\<^verbatim>\<open>[e.get("value") for e in entities if e.get("entity") == name]\<close>.\<close>

definition entity_values :: "string \<Rightarrow> entity list \<Rightarrow> pyval list" where
  "entity_values name es = map (\<lambda>e. dict_get e ''value'') (filter (\<lambda>e. dict_get e ''entity'' = PStr name) es)"

definition build_filter_context :: "tracker \<Rightarrow> FilterContext" where
  "build_filter_context tr =
     (let intent_name =
            (case latest_message tr of None \<Rightarrow> ''''
             | Some latest \<Rightarrow> (case msg_intent_name latest of None \<Rightarrow> '''' | Some n \<Rightarrow> n));
          text =
            (case latest_message tr of None \<Rightarrow> ''''
             | Some latest \<Rightarrow> (case msg_text latest of None \<Rightarrow> '''' | Some t \<Rightarrow> t));
          entities =
            (case latest_message tr of None \<Rightarrow> []
             | Some latest \<Rightarrow> (case msg_entities latest of None \<Rightarrow> [] | Some es \<Rightarrow> es));
          year_entities = entity_values ''year'' entities;
          surface_entities = entity_values ''surface'' entities;
          tournament_entities = entity_values ''tournament'' entities;
          message_year =
            opt_str (case year_entities of v # _ \<Rightarrow> normalize_year_value v
                     | [] \<Rightarrow> extract_year_from_text text);
          message_surface =
            opt_str (case surface_entities of v # _ \<Rightarrow> normalize_surface_value v
                     | [] \<Rightarrow> extract_surface_from_text text);
          message_tournament = (case tournament_entities of v # _ \<Rightarrow> v | [] \<Rightarrow> PNone);
          slot_year = slots tr ''year'';
          slot_surface = slots tr ''surface'';
          slot_tournament = slots tr ''tournament_name''
      in
      if intent_name = ''inform_filters'' then
        \<lparr> intent_name = intent_name, message_text = text, entities = entities,
          year = py_or message_year slot_year,
          surface = py_or message_surface slot_surface,
          tournament = py_or message_tournament slot_tournament,
          message_year = message_year, message_surface = message_surface,
          message_tournament = message_tournament,
          slot_year = slot_year, slot_surface = slot_surface, slot_tournament = slot_tournament,
          explicit_year = (message_year \<noteq> PNone),
          explicit_surface = (message_surface \<noteq> PNone),
          explicit_tournament = (message_tournament \<noteq> PNone) \<rparr>
      else
        let year = message_year;
            surface = message_surface;
            tournament = message_tournament
        in
        \<lparr> intent_name = intent_name, message_text = text, entities = entities,
          year = year,
          surface = surface,
          tournament = tournament,
          message_year = message_year, message_surface = message_surface,
          message_tournament = message_tournament,
          slot_year = slot_year, slot_surface = slot_surface, slot_tournament = slot_tournament,
          explicit_year = (year \<noteq> PNone),
          explicit_surface = (surface \<noteq> PNone),
          explicit_tournament = (tournament \<noteq> PNone) \<rparr>)"

text \<open>Two conversations with the same slot memory and a message without a year: a
  filter update and a fresh question.\<close>

definition tracker_inform :: tracker where
  "tracker_inform =
     \<lparr> latest_message = Some \<lparr> msg_intent_name = Some ''inform_filters'',
                               msg_text = Some ''su terra'',
                               msg_entities = Some [[''entity'' \<mapsto> PStr ''surface'', ''value'' \<mapsto> PStr ''terra'']] \<rparr>,
       slots = (\<lambda>k. if k = ''year'' then PStr ''2022'' else PNone) \<rparr>"

definition tracker_fresh :: tracker where
  "tracker_fresh =
     \<lparr> latest_message = Some \<lparr> msg_intent_name = Some ''player_stats'',
                               msg_text = Some ''statistiche di Sinner su erba'',
                               msg_entities = Some [[''entity'' \<mapsto> PStr ''player'', ''value'' \<mapsto> PStr ''Sinner'']] \<rparr>,
       slots = (\<lambda>k. if k = ''year'' then PStr ''2022'' else PNone) \<rparr>"

section \<open>Player resolution\<close>

text \<open>
  The data source is outside the program: the cursor is a function from the statement
  executed (one of the three \<^verbatim>\<open>SELECT\<close>s of \<^verbatim>\<open>validate_and_find_player\<close>, with its
  parameter) to what \<^verbatim>\<open>execute\<close> and \<^verbatim>\<open>fetchone\<close> give: an error of the database, no
  row, or the first two cells of the first row. The function returns its result together
  with the statements it executed, in order.
\<close>

datatype player_query = ExactName string | PrefixLike string | SubstringLike string

type_synonym cursor = "player_query \<Rightarrow> py_error + (pyval \<times> pyval) option"

definition validate_and_find_player ::
  "string option \<Rightarrow> cursor \<Rightarrow> (py_error + pyval \<times> pyval) \<times> player_query list" where
  "validate_and_find_player player_name cur =
     (case player_name of
        None \<Rightarrow> (Inr (PNone, PNone), [])
      | Some name \<Rightarrow>
          if name = [] \<or> length (py_strip name) < 2 then (Inr (PNone, PNone), [])
          else
            let clean = py_strip name;
                q1 = ExactName clean;
                q2 = PrefixLike (clean @ ''%'');
                q3 = SubstringLike (''%'' @ clean @ ''%'')
            in
            case cur q1 of
              Inl e \<Rightarrow> (Inl e, [q1])
            | Inr (Some (pid, pname)) \<Rightarrow> (Inr (pid, pname), [q1])
            | Inr None \<Rightarrow>
               (case cur q2 of
                  Inl e \<Rightarrow> (Inl e, [q1, q2])
                | Inr (Some (pid, pname)) \<Rightarrow> (Inr (pid, pname), [q1, q2])
                | Inr None \<Rightarrow>
                   (case cur q3 of
                      Inl e \<Rightarrow> (Inl e, [q1, q2, q3])
                    | Inr (Some (pid, pname)) \<Rightarrow> (Inr (pid, pname), [q1, q2, q3])
                    | Inr None \<Rightarrow> (Inr (PNone, PNone), [q1, q2, q3]))))"

text \<open>A data source that answers every statement with the same player.\<close>

definition cursor_always :: cursor where
  "cursor_always q = Inr (Some (PStr ''206173'', PStr ''Jannik Sinner''))"

section \<open>Heuristic text extractor\<close>

text \<open>The word lists of \<^verbatim>\<open>ActionMatchResult\<close>.\<close>

definition PREFIX_FILLERS :: "string set" where
  "PREFIX_FILLERS =
     {''il'', ''lo'', ''la'', ''l'', [CHR ''l'', CHR 0x27], ''i'', ''gli'', ''le'', ''un'', ''una'', ''uno'',
      ''dei'', ''degli'', ''delle'', ''del'', ''dello'', ''della'', ''di'', ''d'',
      ''risultato'', ''risultati'', ''punteggio'', ''match'', ''partita'', ''partite'',
      ''ultimi'', ''ultime'', ''ultimo'', ''ultima''}"

definition SUFFIX_FILLERS :: "string set" where
  "SUFFIX_FILLERS = {''match'', ''partita'', ''partite'', ''vs'', ''contro''}"

definition BREAK_TOKENS :: "string set" where
  "BREAK_TOKENS =
     {''a'', ''ad'', ''al'', ''allo'', ''alla'', ''agli'', ''alle'', ''ai'',
      ''nel'', ''nello'', ''nella'', ''nei'', ''nelle'',
      ''su'', ''sul'', ''sullo'', ''sulla'', ''sui'', ''sugli'',
      ''per'', ''tra'', ''fra'', ''contro'', ''vs'', ''vs.'', ''versus'', ''durante'',
      ''da'', ''dal'', ''dallo'', ''dalla'', ''dai'', ''dagli'', ''dalle''}"

text \<open>The connector words that \<^verbatim>\<open>_tokenize\<close> skips.\<close>

definition CONNECTORS :: "string set" where
  "CONNECTORS = {''vs'', ''vs.'', ''versus'', ''contro''}"

text \<open>The characters that the class \<^verbatim>\<open>[^A-Za-z\<dots>' -]\<close> of \<^verbatim>\<open>_tokenize\<close> leaves in place:
  the letters A-Z and a-z, the accented letters U+00C0..U+00D6, U+00D8..U+00F6 and
  U+00F8..U+00FF, the apostrophe, the space and the hyphen.\<close>

definition name_char :: "char \<Rightarrow> bool" where
  "name_char c =
     (let n = (of_char c :: nat) in
      (65 \<le> n \<and> n \<le> 90) \<or> (97 \<le> n \<and> n \<le> 122) \<or> (192 \<le> n \<and> n \<le> 214)
      \<or> (216 \<le> n \<and> n \<le> 246) \<or> 248 \<le> n \<or> n = 39 \<or> n = 32 \<or> n = 45)"

text \<open>\<^verbatim>\<open>re.sub(pattern, " ", text)\<close> for that one-character class.\<close>

definition blank_other_chars :: "string \<Rightarrow> string" where
  "blank_other_chars text = map (\<lambda>c. if name_char c then c else CHR '' '') text"

text \<open>\<^verbatim>\<open>s.split()\<close>: the maximal runs of characters that are not whitespace. The first
  argument is the run being read.\<close>

fun split_run :: "string \<Rightarrow> string \<Rightarrow> string list" where
  "split_run cur [] = (if cur = [] then [] else [cur])"
| "split_run cur (c # cs) =
     (if py_isspace c then (if cur = [] then split_run [] cs else cur # split_run [] cs)
      else split_run (cur @ [c]) cs)"

definition py_split :: "string \<Rightarrow> string list" where
  "py_split s = split_run [] s"

text \<open>\<^verbatim>\<open>s.isdigit()\<close>: not empty and only digits; below 256 these are 0-9 and the
  superscripts U+00B2, U+00B3, U+00B9.\<close>

definition digit_char :: "char \<Rightarrow> bool" where
  "digit_char c = (let n = (of_char c :: nat) in (48 \<le> n \<and> n \<le> 57) \<or> n = 178 \<or> n = 179 \<or> n = 185)"

definition py_isdigit :: "string \<Rightarrow> bool" where
  "py_isdigit s = (s \<noteq> [] \<and> list_all digit_char s)"

text \<open>\<^verbatim>\<open>sep.join(parts)\<close>.\<close>

fun py_join :: "string \<Rightarrow> string list \<Rightarrow> string" where
  "py_join sep [] = []"
| "py_join sep [x] = x"
| "py_join sep (x # y # ys) = x @ sep @ py_join sep (y # ys)"

text \<open>The loop of \<^verbatim>\<open>_tokenize\<close> over the tokens, with its local \<^verbatim>\<open>result\<close>.\<close>

fun tokenize_loop :: "string list \<Rightarrow> string list \<Rightarrow> string list" where
  "tokenize_loop result [] = result"
| "tokenize_loop result (tok # toks) =
     (let lower = py_lower tok in
      if lower \<in> CONNECTORS then tokenize_loop result toks
      else if py_isdigit tok then tokenize_loop result toks
      else if result = [] \<and> lower \<in> PREFIX_FILLERS then tokenize_loop result toks
      else tokenize_loop (result @ [tok]) toks)"

definition tokenize :: "string \<Rightarrow> string list" where
  "tokenize text =
     (let cleaned = blank_other_chars text;
          tokens = filter (\<lambda>tok. tok \<noteq> []) (py_split cleaned)
      in tokenize_loop [] tokens)"

text \<open>The reading of the tokenizer in which only one filler is dropped, and only at the
  very first position, for comparison with \<^verbatim>\<open>_tokenize\<close>.\<close>

definition tokenize_single_filler :: "string \<Rightarrow> string list" where
  "tokenize_single_filler text =
     (case filter (\<lambda>t. py_lower t \<notin> CONNECTORS \<and> \<not> py_isdigit t)
             (py_split (blank_other_chars text)) of
        [] \<Rightarrow> []
      | t # ts \<Rightarrow> if py_lower t \<in> PREFIX_FILLERS then ts else t # ts)"

text \<open>\<^verbatim>\<open>tok.lower().strip("\<dots>'")\<close>: the characters stripped are the apostrophe and the
  typographic apostrophe U+2019; the latter is above 255 and never part of a token.\<close>

definition strip_apostrophes :: "string \<Rightarrow> string" where
  "strip_apostrophes s = strip_chars (\<lambda>c. c = CHR 0x27) s"

text \<open>The two collecting loops of \<^verbatim>\<open>_clean_player_fragment\<close>: take tokens until a break
  token or a number, three at most.\<close>

fun collect_tokens :: "string list \<Rightarrow> string list \<Rightarrow> string list" where
  "collect_tokens collected [] = collected"
| "collect_tokens collected (tok # toks) =
     (let lower = py_lower tok in
      if lower \<in> BREAK_TOKENS \<or> py_isdigit tok then collected
      else if length (collected @ [tok]) \<ge> 3 then collected @ [tok]
      else collect_tokens (collected @ [tok]) toks)"

definition clean_player_fragment :: "string \<Rightarrow> bool \<Rightarrow> string" where
  "clean_player_fragment fragment from_end =
     (let tokens = tokenize fragment in
      if tokens = [] then ''''
      else
        let tokens = dropWhile (\<lambda>t. strip_apostrophes (py_lower t) \<in> PREFIX_FILLERS) tokens;
            tokens = rev (dropWhile (\<lambda>t. strip_apostrophes (py_lower t) \<in> SUFFIX_FILLERS) (rev tokens))
        in
        if tokens = [] then ''''
        else if from_end then
          (let collected = collect_tokens [] (rev tokens);
               collected = (if collected = [] then [last tokens] else collected)
           in py_join '' '' (rev collected))
        else
          (let collected = collect_tokens [] tokens;
               collected = (if collected = [] then [hd tokens] else collected)
           in py_join '' '' collected))"

subsection \<open>The pattern of \<^verbatim>\<open>_extract_players_from_text\<close>\<close>

text \<open>
  \<^verbatim>\<open>re.search(r"(?i)(.+?)\s+(?:vs\.?|versus|contro)\s+(.+)", text)\<close> is written out as the
  backtracking search it is. Each piece of the pattern takes the rest of the text and a
  continuation for what follows it, and tries its ways to match in the order of
  \<^verbatim>\<open>re\<close>: a greedy repetition from the longest run down, a lazy one from the shortest
  up, an alternation from left to right.
\<close>

fun first_some :: "('a \<Rightarrow> 'b option) \<Rightarrow> 'a list \<Rightarrow> 'b option" where
  "first_some f [] = None"
| "first_some f (x # xs) = (case f x of Some y \<Rightarrow> Some y | None \<Rightarrow> first_some f xs)"

text \<open>The dot of the pattern: every character but the newline.\<close>

definition re_dot :: "char \<Rightarrow> bool" where
  "re_dot c = (c \<noteq> CHR 0x0A)"

text \<open>\<^verbatim>\<open>cls+\<close> and \<^verbatim>\<open>cls+?\<close>; the continuation gets the matched text and the rest.\<close>

definition greedy_plus :: "(char \<Rightarrow> bool) \<Rightarrow> string \<Rightarrow> (string \<Rightarrow> string \<Rightarrow> 'a option) \<Rightarrow> 'a option" where
  "greedy_plus cls s cont =
     first_some (\<lambda>n. cont (take n s) (drop n s)) (rev [1 ..< Suc (length (takeWhile cls s))])"

definition lazy_plus :: "(char \<Rightarrow> bool) \<Rightarrow> string \<Rightarrow> (string \<Rightarrow> string \<Rightarrow> 'a option) \<Rightarrow> 'a option" where
  "lazy_plus cls s cont =
     first_some (\<lambda>n. cont (take n s) (drop n s)) [1 ..< Suc (length (takeWhile cls s))]"

text \<open>A literal word of the pattern under \<^verbatim>\<open>(?i)\<close>; the word is in lower case.\<close>

definition literal_ci :: "string \<Rightarrow> string \<Rightarrow> (string \<Rightarrow> 'a option) \<Rightarrow> 'a option" where
  "literal_ci w s cont =
     (if length w \<le> length s \<and> py_lower (take (length w) s) = w then cont (drop (length w) s)
      else None)"

text \<open>\<^verbatim>\<open>(?:vs\.?|versus|contro)\<close>: the optional dot is tried before its absence.\<close>

definition connector :: "string \<Rightarrow> (string \<Rightarrow> 'a option) \<Rightarrow> 'a option" where
  "connector s cont =
     first_some (\<lambda>w. literal_ci w s cont) [''vs.'', ''vs'', ''versus'', ''contro'']"

text \<open>The whole pattern at one start position: the two groups of the first match.\<close>

definition match_here :: "string \<Rightarrow> (string \<times> string) option" where
  "match_here s =
     lazy_plus re_dot s (\<lambda>g1 r1.
       greedy_plus py_isspace r1 (\<lambda>_ r2.
         connector r2 (\<lambda>r3.
           greedy_plus py_isspace r3 (\<lambda>_ r4.
             greedy_plus re_dot r4 (\<lambda>g2 _. Some (g1, g2))))))"

text \<open>\<^verbatim>\<open>re.search\<close>: the leftmost start position with a match.\<close>

definition search_pair :: "string \<Rightarrow> (string \<times> string) option" where
  "search_pair text = first_some (\<lambda>i. match_here (drop i text)) [0 ..< Suc (length text)]"

text \<open>The loop over \<^verbatim>\<open>(left, right)\<close> with its local \<^verbatim>\<open>results\<close>.\<close>

fun collect_results :: "string list \<Rightarrow> string list \<Rightarrow> string list" where
  "collect_results results [] = results"
| "collect_results results (candidate # rest) =
     (let cleaned = strip_chars (\<lambda>c. c \<in> set '' ,.-'') candidate in
      if cleaned \<noteq> [] \<and> list_all (\<lambda>existing. py_lower cleaned \<noteq> py_lower existing) results
      then collect_results (results @ [cleaned]) rest
      else collect_results results rest)"

definition extract_players_from_text :: "string option \<Rightarrow> string list" where
  "extract_players_from_text text =
     (case text of
        None \<Rightarrow> []
      | Some t \<Rightarrow>
          if t = [] then []
          else case search_pair t of
                 None \<Rightarrow> []
               | Some (g1, g2) \<Rightarrow>
                   let left = clean_player_fragment g1 True;
                       right = clean_player_fragment g2 False
                   in collect_results [] [left, right])"

section \<open>Statistics aggregation\<close>

text \<open>\<^verbatim>\<open>row[key]\<close> on a dictionary: a missing key raises \<^verbatim>\<open>KeyError\<close>.\<close>

definition dict_item :: "(string \<rightharpoonup> pyval) \<Rightarrow> string \<Rightarrow> py_error + pyval" where
  "dict_item d k = (case d k of None \<Rightarrow> Inl KeyError | Some v \<Rightarrow> Inr v)"

text \<open>
  \<^verbatim>\<open>int(s)\<close> on text: whitespace around (for \<^verbatim>\<open>int\<close> the code points 9-13, 32, 133 and
  160), an optional sign, then decimal digits, single underscores allowed between two
  digits. \<open>None\<close> stands for \<^verbatim>\<open>ValueError\<close>.
\<close>

definition int_space :: "char \<Rightarrow> bool" where
  "int_space c = ((of_char c :: nat) \<in> {9, 10, 11, 12, 13, 32, 133, 160})"

fun digits_ok :: "bool \<Rightarrow> string \<Rightarrow> bool" where
  "digits_ok prev_digit [] = prev_digit"
| "digits_ok prev_digit (c # cs) =
     (if re_digit c then digits_ok True cs
      else if c = CHR ''_'' \<and> prev_digit then digits_ok False cs
      else False)"

definition nat_of_digits :: "string \<Rightarrow> nat" where
  "nat_of_digits ds = foldl (\<lambda>acc c. 10 * acc + (of_char c - 48)) 0 ds"

definition int_of_str :: "string \<Rightarrow> int option" where
  "int_of_str s =
     (let t = strip_chars int_space s;
          negative = (case t of c # _ \<Rightarrow> c = CHR ''-'' | [] \<Rightarrow> False);
          body = (case t of c # cs \<Rightarrow> if c = CHR ''-'' \<or> c = CHR ''+'' then cs else t | [] \<Rightarrow> [])
      in if digits_ok False body
         then Some ((if negative then - 1 else 1)
                    * int (nat_of_digits (filter (\<lambda>c. c \<noteq> CHR ''_'') body)))
         else None)"

text \<open>\<^verbatim>\<open>safe_int\<close>: \<^verbatim>\<open>int(value)\<close>, and 0 when it raises \<^verbatim>\<open>TypeError\<close> (for
  \<^verbatim>\<open>None\<close>) or \<^verbatim>\<open>ValueError\<close>.\<close>

fun safe_int :: "pyval \<Rightarrow> int" where
  "safe_int PNone = 0"
| "safe_int (PInt n) = n"
| "safe_int (PStr s) = (case int_of_str s of None \<Rightarrow> 0 | Some n \<Rightarrow> n)"

text \<open>
  \<^verbatim>\<open>s.upper()\<close>: a-z and the accented small letters U+00E0..U+00FE (without the
  division sign U+00F7) move down by 32. The upper-case forms of U+00DF, U+00B5 and
  U+00FF are outside the characters of the model ("SS", U+039C, U+0178); these three
  are left in place, which changes none of the tests below: they look for text made of
  the letters of "RET", "W/O", "TB", "F", "FIN" and "FINAL" only.
\<close>

definition upper_char :: "char \<Rightarrow> char" where
  "upper_char c =
     (let n = (of_char c :: nat) in
      if (97 \<le> n \<and> n \<le> 122) \<or> (224 \<le> n \<and> n \<le> 246) \<or> (248 \<le> n \<and> n \<le> 254)
      then char_of (n - 32) else c)"

definition py_upper :: "string \<Rightarrow> string" where
  "py_upper s = map upper_char s"

text \<open>
  True division \<^verbatim>\<open>a / b\<close> of two integers. The result is a float in Python; the model
  keeps the exact quotient and does not model rounding. A zero divisor raises.
\<close>

definition py_truediv :: "int \<Rightarrow> int \<Rightarrow> py_error + rat" where
  "py_truediv a b = (if b = 0 then Inl ZeroDivisionError else Inr (of_int a / of_int b))"

text \<open>\<^verbatim>\<open>(a / b * 100.0) if b else 0.0\<close>.\<close>

definition guarded_pct :: "int \<Rightarrow> int \<Rightarrow> py_error + rat" where
  "guarded_pct a b = (if b \<noteq> 0 then err_bind (py_truediv a b) (\<lambda>q. Inr (q * 100)) else Inr 0)"

text \<open>
  The win/loss tallies \<^verbatim>\<open>{"matches": m, "wins": w}\<close> per surface, tournament and year
  are kept as pairs \<open>(m, w)\<close> in association lists in insertion order, as a Python
  dictionary keeps them. \<^verbatim>\<open>setdefault\<close> followed by the two increments:
\<close>

type_synonym tallies = "(string \<times> int \<times> int) list"

definition bump_tally :: "tallies \<Rightarrow> string \<Rightarrow> bool \<Rightarrow> tallies" where
  "bump_tally stats key is_winner =
     (let entry = (case map_of stats key of None \<Rightarrow> (0, 0) | Some e \<Rightarrow> e)
      in AList.update key (fst entry + 1, snd entry + (if is_winner then 1 else 0)) stats)"

text \<open>The local variables of the loop over \<^verbatim>\<open>match_rows\<close> in
  \<^verbatim>\<open>ActionPlayerStats.run\<close>.\<close>

record counters =
  sum_aces :: int
  sum_dfs :: int
  sum_svpt :: int
  sum_1st_in :: int
  sum_1st_won :: int
  sum_2nd_won :: int
  sum_svgms :: int
  sum_bp_saved :: int
  sum_bp_faced :: int
  minutes_total :: int
  minutes_count :: int
  retires_total :: int
  retires_wins :: int
  retires_losses :: int
  finals_played :: int
  titles_won :: int
  tb_matches :: int
  surface_stats :: tallies
  tournament_stats :: tallies
  year_stats :: tallies

definition initial_counters :: counters where
  "initial_counters =
     \<lparr> sum_aces = 0, sum_dfs = 0, sum_svpt = 0, sum_1st_in = 0, sum_1st_won = 0,
       sum_2nd_won = 0, sum_svgms = 0, sum_bp_saved = 0, sum_bp_faced = 0,
       minutes_total = 0, minutes_count = 0,
       retires_total = 0, retires_wins = 0, retires_losses = 0,
       finals_played = 0, titles_won = 0, tb_matches = 0,
       surface_stats = [], tournament_stats = [], year_stats = [] \<rparr>"

text \<open>\<^verbatim>\<open>str(match["winner_id"]) == player_id_str\<close>.\<close>

definition is_winner_of :: "(string \<rightharpoonup> pyval) \<Rightarrow> string \<Rightarrow> py_error + bool" where
  "is_winner_of m player_id_str =
     err_bind (dict_item m ''winner_id'') (\<lambda>w. Inr (py_str w = player_id_str))"

text \<open>\<^verbatim>\<open>safe_int(match[w] if is_winner else match[l])\<close>.\<close>

definition side_cell :: "(string \<rightharpoonup> pyval) \<Rightarrow> bool \<Rightarrow> string \<Rightarrow> string \<Rightarrow> py_error + int" where
  "side_cell m is_winner w l =
     err_bind (dict_item m (if is_winner then w else l)) (\<lambda>v. Inr (safe_int v))"

text \<open>One pass of the loop body.\<close>

definition aggregate_step ::
  "pyval \<Rightarrow> string \<Rightarrow> counters \<Rightarrow> (string \<rightharpoonup> pyval) \<Rightarrow> py_error + counters" where
  "aggregate_step year_filter player_id_str acc m =
     err_bind (is_winner_of m player_id_str) (\<lambda>is_winner.
     err_bind (strip_method (py_or (dict_get m ''surface'') (PStr ''''))) (\<lambda>surface_code.
     let surface_code = (if surface_code = [] then ''N/A'' else surface_code);
         surface_stats' = bump_tally (surface_stats acc) surface_code is_winner
     in
     err_bind (strip_method (py_or (dict_get m ''tourney_name'') (PStr ''Sconosciuto''))) (\<lambda>tournament_name.
     let tournament_stats' = bump_tally (tournament_stats acc) tournament_name is_winner;
         year_stats' =
           (if \<not> py_truthy year_filter then
              (let raw_date = py_str (py_or (dict_get m ''tourney_date'') (PStr ''''));
                   year = (if length raw_date \<ge> 4 then take 4 raw_date else '''')
               in if py_isdigit year then bump_tally (year_stats acc) year is_winner
                  else year_stats acc)
            else year_stats acc)
     in
     err_bind (side_cell m is_winner ''w_ace'' ''l_ace'') (\<lambda>ace.
     err_bind (side_cell m is_winner ''w_df'' ''l_df'') (\<lambda>df.
     err_bind (side_cell m is_winner ''w_svpt'' ''l_svpt'') (\<lambda>svpt.
     err_bind (side_cell m is_winner ''w_1stIn'' ''l_1stIn'') (\<lambda>first_in.
     err_bind (side_cell m is_winner ''w_1stWon'' ''l_1stWon'') (\<lambda>first_won.
     err_bind (side_cell m is_winner ''w_2ndWon'' ''l_2ndWon'') (\<lambda>second_won.
     err_bind (side_cell m is_winner ''w_SvGms'' ''l_SvGms'') (\<lambda>svgms.
     err_bind (side_cell m is_winner ''w_bpSaved'' ''l_bpSaved'') (\<lambda>bp_saved.
     err_bind (side_cell m is_winner ''w_bpFaced'' ''l_bpFaced'') (\<lambda>bp_faced.
     let minutes = safe_int (dict_get m ''minutes'');
         score = py_str (py_or (dict_get m ''score'') (PStr ''''));
         retired = (sublist ''RET'' (py_upper score) \<or> sublist ''W/O'' (py_upper score));
         tie_break = (sublist ''TB'' (py_upper score) \<or> sublist ''7-'' score);
         final = (py_upper (py_str (py_or (dict_get m ''round'') (PStr '''')))
                    \<in> {''F'', ''FIN'', ''FINAL''})
     in
     Inr (acc
       \<lparr> sum_aces := sum_aces acc + ace,
         sum_dfs := sum_dfs acc + df,
         sum_svpt := sum_svpt acc + svpt,
         sum_1st_in := sum_1st_in acc + first_in,
         sum_1st_won := sum_1st_won acc + first_won,
         sum_2nd_won := sum_2nd_won acc + second_won,
         sum_svgms := sum_svgms acc + svgms,
         sum_bp_saved := sum_bp_saved acc + bp_saved,
         sum_bp_faced := sum_bp_faced acc + bp_faced,
         minutes_total := (if minutes \<noteq> 0 then minutes_total acc + minutes else minutes_total acc),
         minutes_count := (if minutes \<noteq> 0 then minutes_count acc + 1 else minutes_count acc),
         retires_total := (if retired then retires_total acc + 1 else retires_total acc),
         retires_wins := (if retired \<and> is_winner then retires_wins acc + 1 else retires_wins acc),
         retires_losses :=
           (if retired \<and> \<not> is_winner then retires_losses acc + 1 else retires_losses acc),
         finals_played := (if final then finals_played acc + 1 else finals_played acc),
         titles_won := (if final \<and> is_winner then titles_won acc + 1 else titles_won acc),
         tb_matches := (if tie_break then tb_matches acc + 1 else tb_matches acc),
         surface_stats := surface_stats',
         tournament_stats := tournament_stats',
         year_stats := year_stats' \<rparr>)))))))))))))"

fun aggregate_loop ::
  "pyval \<Rightarrow> string \<Rightarrow> counters \<Rightarrow> (string \<rightharpoonup> pyval) list \<Rightarrow> py_error + counters" where
  "aggregate_loop year_filter player_id_str acc [] = Inr acc"
| "aggregate_loop year_filter player_id_str acc (m # ms) =
     err_bind (aggregate_step year_filter player_id_str acc m)
       (\<lambda>acc'. aggregate_loop year_filter player_id_str acc' ms)"

text \<open>\<^verbatim>\<open>sum(1 for row in match_rows if str(row["winner_id"]) == player_id_str)\<close>.\<close>

fun count_wins :: "string \<Rightarrow> (string \<rightharpoonup> pyval) list \<Rightarrow> py_error + int" where
  "count_wins player_id_str [] = Inr 0"
| "count_wins player_id_str (row # rows) =
     err_bind (is_winner_of row player_id_str) (\<lambda>w.
     err_bind (count_wins player_id_str rows) (\<lambda>n. Inr ((if w then 1 else 0) + n)))"

record stats =
  total_rows :: int
  wins :: int
  losses :: int
  win_rate :: rat
  counts :: counters
  first_in_pct :: rat
  first_won_pct :: rat
  second_won_pct :: rat
  bp_saved_pct :: rat

text \<open>
  What \<^verbatim>\<open>ActionPlayerStats.run\<close> computes from the deduplicated rows. For an empty list
  it reports that no data is available and returns (\<^verbatim>\<open>if total == 0\<close>) before any
  statistic is assigned. Otherwise it computes the wins and the win rate, runs the loop,
  computes the four percentages, and puts them into the message together with the two
  averages per match, \<^verbatim>\<open>sum_aces / total\<close> and \<^verbatim>\<open>sum_dfs / total\<close>.
\<close>

datatype report = NoData | Report stats rat rat

definition player_stats_block ::
  "(string \<rightharpoonup> pyval) list \<Rightarrow> pyval \<Rightarrow> pyval \<Rightarrow> py_error + report" where
  "player_stats_block match_rows player_id year_filter =
     (let total = int (length match_rows) in
      if total = 0 then Inr NoData
      else
        let player_id_str = py_str player_id in
        err_bind (count_wins player_id_str match_rows) (\<lambda>wins.
        let losses = total - wins in
        err_bind (guarded_pct wins total) (\<lambda>win_rate.
        err_bind (aggregate_loop year_filter player_id_str initial_counters match_rows) (\<lambda>c.
        err_bind (guarded_pct (sum_1st_in c) (sum_svpt c)) (\<lambda>first_in_pct.
        err_bind (guarded_pct (sum_1st_won c) (sum_1st_in c)) (\<lambda>first_won_pct.
        err_bind (guarded_pct (sum_2nd_won c) (sum_svpt c - sum_1st_in c)) (\<lambda>second_won_pct.
        err_bind (guarded_pct (sum_bp_saved c) (sum_bp_faced c)) (\<lambda>bp_saved_pct.
        err_bind (py_truediv (sum_aces c) total) (\<lambda>ace_avg.
        err_bind (py_truediv (sum_dfs c) total) (\<lambda>df_avg.
        Inr (Report
               \<lparr> total_rows = total, wins = wins, losses = losses, win_rate = win_rate,
                 counts = c,
                 first_in_pct = first_in_pct, first_won_pct = first_won_pct,
                 second_won_pct = second_won_pct, bp_saved_pct = bp_saved_pct \<rparr>
               ace_avg df_avg)))))))))))"

text \<open>The statistics that the claim expects of the empty list: every number zero.\<close>

definition zero_stats :: stats where
  "zero_stats =
     \<lparr> total_rows = 0, wins = 0, losses = 0, win_rate = 0, counts = initial_counters,
       first_in_pct = 0, first_won_pct = 0, second_won_pct = 0, bp_saved_pct = 0 \<rparr>"

text \<open>A walkover won by player 1: no serve statistics are recorded.\<close>

definition walkover_row :: "string \<rightharpoonup> pyval" where
  "walkover_row =
     [''match_id'' \<mapsto> PInt 7, ''tourney_name'' \<mapsto> PStr ''Roma'', ''surface'' \<mapsto> PStr ''Clay'',
      ''tourney_date'' \<mapsto> PStr ''20220509'', ''winner_id'' \<mapsto> PStr ''1'', ''loser_id'' \<mapsto> PStr ''2'',
      ''score'' \<mapsto> PStr ''W/O'', ''round'' \<mapsto> PStr ''QF'', ''minutes'' \<mapsto> PNone,
      ''w_ace'' \<mapsto> PNone, ''w_df'' \<mapsto> PNone, ''w_svpt'' \<mapsto> PNone, ''w_1stIn'' \<mapsto> PNone,
      ''w_1stWon'' \<mapsto> PNone, ''w_2ndWon'' \<mapsto> PNone, ''w_SvGms'' \<mapsto> PNone,
      ''w_bpSaved'' \<mapsto> PNone, ''w_bpFaced'' \<mapsto> PNone,
      ''l_ace'' \<mapsto> PNone, ''l_df'' \<mapsto> PNone, ''l_svpt'' \<mapsto> PNone, ''l_1stIn'' \<mapsto> PNone,
      ''l_1stWon'' \<mapsto> PNone, ''l_2ndWon'' \<mapsto> PNone, ''l_SvGms'' \<mapsto> PNone,
      ''l_bpSaved'' \<mapsto> PNone, ''l_bpFaced'' \<mapsto> PNone]"

definition walkover_stats :: stats where
  "walkover_stats =
     \<lparr> total_rows = 1, wins = 1, losses = 0, win_rate = 100,
       counts = initial_counters
         \<lparr> retires_total := 1, retires_wins := 1,
           surface_stats := [(''Clay'', 1, 1)], tournament_stats := [(''Roma'', 1, 1)],
           year_stats := [(''2022'', 1, 1)] \<rparr>,
       first_in_pct = 0, first_won_pct = 0, second_won_pct = 0, bp_saved_pct = 0 \<rparr>"

section \<open>Rows used by the public operations\<close>

text \<open>
  Each operation below receives what its multi-row query returned and gives the rows
  it goes on to aggregate or to print.

  \<^item> \<^verbatim>\<open>ActionPlayerStats.run\<close> passes the dictionaries of \<^verbatim>\<open>fetch_rows_as_dicts\<close> through
    \<^verbatim>\<open>deduplicate_matches\<close>.
  \<^item> \<^verbatim>\<open>ActionHeadToHead.run\<close> runs the same loop inline over the raw tuples.
  \<^item> \<^verbatim>\<open>_handle_pair\<close> calls \<^verbatim>\<open>fetch_unique_match_dicts\<close>, the same loop keyed by the raw
    tuple that each dictionary carries under \<^verbatim>\<open>"__raw__"\<close>; a kept dictionary is given
    here by that tuple.
  \<^item> \<^verbatim>\<open>_handle_single\<close>, \<^verbatim>\<open>_handle_tournament\<close> and \<^verbatim>\<open>_handle_latest\<close> iterate over
    \<^verbatim>\<open>cursor.fetchall()\<close> as it is and print one line per row.
\<close>

definition player_stats_rows :: "(string \<rightharpoonup> pyval) list \<Rightarrow> py_error + row list" where
  "player_stats_rows fetched = deduplicate_matches (map Dict fetched)"

definition head_to_head_rows :: "pyval list list \<Rightarrow> py_error + row list" where
  "head_to_head_rows raw_rows = dedup_loop {} [] (map Tuple raw_rows)"

definition handle_pair_rows :: "pyval list list \<Rightarrow> py_error + row list" where
  "handle_pair_rows raw_rows = dedup_loop {} [] (map Tuple raw_rows)"

definition handle_single_rows :: "pyval list list \<Rightarrow> row list" where
  "handle_single_rows rows = map Tuple rows"

definition handle_tournament_rows :: "pyval list list \<Rightarrow> row list" where
  "handle_tournament_rows rows = map Tuple rows"

definition handle_latest_rows :: "pyval list list \<Rightarrow> row list" where
  "handle_latest_rows rows = map Tuple rows"

text \<open>The same contest stored twice: the second row is what \<^verbatim>\<open>update_ongoing_matches\<close>
  inserts when the live feed spells the round in lower case, since its test for an
  existing row compares \<^verbatim>\<open>round\<close> with \<^verbatim>\<open>=\<close> while the signature lower-cases it.\<close>

definition stored_once :: "pyval list" where
  "stored_once =
     [PInt 10, PStr ''Roma'', PStr ''Clay'', PInt 96, PStr ''M'',
      PStr ''20240508'', PInt 270, PStr ''206173'', PStr ''104925'', PStr ''2'',
      PNone, PStr ''6-3 6-4'', PInt 3, PStr ''R32'', PInt 88]
     @ replicate 18 PNone @ [PInt 0]"

definition stored_twice :: "pyval list" where
  "stored_twice =
     [PInt 11, PStr ''Roma'', PStr ''Clay'', PInt 96, PStr ''M'',
      PStr ''20240508'', PInt 270, PStr ''206173'', PStr ''104925'', PStr ''2'',
      PNone, PStr ''6-3 6-4'', PInt 3, PStr ''r32'', PInt 88]
     @ replicate 18 PNone @ [PInt 1]"

chapter \<open>Properties\<close>

section \<open>Properties of the signature\<close>

lemma sort_pair_commute: "sort [a, b] = sort [b, (a::'a::linorder)]"
  by auto

lemma signature_of_fields_swap:
  "signature_of_fields d t r m a b s = signature_of_fields d t r m b a s"
  unfolding signature_of_fields_def by (simp only: sort_pair_commute [of a b])

text \<open>
  Claim C1 (signature symmetry). With every other field held equal, the signature of a
  row with winner \<open>a\<close> and loser \<open>b\<close> equals the signature of the row with winner
  \<open>b\<close> and loser \<open>a\<close>. This holds on the dictionary path for any dictionary, and on
  the tuple path for any raw row long enough to hold both participant columns
  (offsets 7 and 8). An \<^verbatim>\<open>AttributeError\<close> raised by another field is raised for
  both orders alike.
\<close>

theorem signature_symmetry:
  "make_match_signature (Dict (d(''winner_id'' \<mapsto> a, ''loser_id'' \<mapsto> b)))
     = make_match_signature (Dict (d(''winner_id'' \<mapsto> b, ''loser_id'' \<mapsto> a)))
   \<and> make_match_signature (Tuple (c0 # c1 # c2 # c3 # c4 # c5 # c6 # a # b # rest))
     = make_match_signature (Tuple (c0 # c1 # c2 # c3 # c4 # c5 # c6 # b # a # rest))"
proof
  show "make_match_signature (Dict (d(''winner_id'' \<mapsto> a, ''loser_id'' \<mapsto> b)))
     = make_match_signature (Dict (d(''winner_id'' \<mapsto> b, ''loser_id'' \<mapsto> a)))"
    by (simp add: dict_get_def Let_def
        signature_of_fields_swap [of _ _ _ _ "py_str (py_or a (PStr []))" "py_str (py_or b (PStr []))"])
next
  show "make_match_signature (Tuple (c0 # c1 # c2 # c3 # c4 # c5 # c6 # a # b # rest))
     = make_match_signature (Tuple (c0 # c1 # c2 # c3 # c4 # c5 # c6 # b # a # rest))"
    by (simp add: Let_def
        signature_of_fields_swap [of _ _ _ _ "py_str (py_or a (PStr []))" "py_str (py_or b (PStr []))"])
qed

section \<open>Properties: rows of the matches table\<close>

lemma length_matches_columns: "length matches_columns = 34"
  by (simp add: matches_columns_def)

lemma distinct_matches_columns: "distinct matches_columns"
  by (simp add: matches_columns_def)

lemma row_as_dict_nth:
  assumes "distinct cols" "length cols = length raw" "i < length raw"
  shows "row_as_dict cols raw (cols ! i) = Some (raw ! i)"
proof -
  let ?n = "length raw"
  have "map_of (zip (rev cols) (rev raw)) (rev cols ! (?n - Suc i)) = Some (rev raw ! (?n - Suc i))"
    using assms by (intro map_of_zip_nth) auto
  moreover have "rev cols ! (?n - Suc i) = cols ! i" "rev raw ! (?n - Suc i) = raw ! i"
    using assms by (simp_all add: rev_nth)
  ultimately show ?thesis
    using assms by (simp add: row_as_dict_def map_upds_def zip_rev)
qed

lemma dict_get_matches_row:
  assumes "length raw = 34" "i < 34"
  shows "dict_get (row_as_dict matches_columns raw) (matches_columns ! i) = raw ! i"
  using row_as_dict_nth [of matches_columns raw i] assms
  by (simp add: dict_get_def distinct_matches_columns length_matches_columns)

lemma matches_columns_offsets:
  "matches_columns ! 5 = ''tourney_date''" "matches_columns ! Suc 0 = ''tourney_name''"
  "matches_columns ! 13 = ''round''" "matches_columns ! 6 = ''match_num''"
  "matches_columns ! 7 = ''winner_id''" "matches_columns ! 8 = ''loser_id''"
  "matches_columns ! 11 = ''score''"
  by (simp_all add: matches_columns_def)

text \<open>
  Claim C2 (dual-path equivalence). For a full row of the matches table, the signature
  computed from the dictionary that \<^verbatim>\<open>fetch_rows_as_dicts\<close> builds by zipping the column
  names with the raw row equals the signature computed from the raw tuple by fixed
  offsets; this includes the case where both raise \<^verbatim>\<open>AttributeError\<close>.
\<close>

theorem dual_path_equivalence:
  assumes "length raw = length matches_columns"
  shows "make_match_signature (Dict (row_as_dict matches_columns raw))
           = make_match_signature (Tuple raw)"
proof -
  have len: "length raw = 34"
    using assms by (simp add: length_matches_columns)
  note g = dict_get_matches_row [OF len]
  have "dict_get (row_as_dict matches_columns raw) ''tourney_date'' = raw ! 5"
       "dict_get (row_as_dict matches_columns raw) ''tourney_name'' = raw ! 1"
       "dict_get (row_as_dict matches_columns raw) ''round'' = raw ! 13"
       "dict_get (row_as_dict matches_columns raw) ''match_num'' = raw ! 6"
       "dict_get (row_as_dict matches_columns raw) ''winner_id'' = raw ! 7"
       "dict_get (row_as_dict matches_columns raw) ''loser_id'' = raw ! 8"
       "dict_get (row_as_dict matches_columns raw) ''score'' = raw ! 11"
    using g [of 5] g [of 1] g [of 13] g [of 6] g [of 7] g [of 8] g [of 11]
    by (simp_all add: matches_columns_offsets)
  then show ?thesis
    using len by (simp add: Let_def)
qed

theorem dual_path_equivalence_witness:
  "length sample_raw = length matches_columns
   \<and> make_match_signature (Dict (row_as_dict matches_columns sample_raw))
       = Inr (''20220509'', ''roma masters'', ''sf'', [''100644'', ''104925''], ''281'', ''6-3 6-4'')
   \<and> make_match_signature (Tuple sample_raw)
       = Inr (''20220509'', ''roma masters'', ''sf'', [''100644'', ''104925''], ''281'', ''6-3 6-4'')"
proof -
  have l: "length sample_raw = length matches_columns"
    by (simp add: sample_raw_def matches_columns_def)
  have t: "make_match_signature (Tuple sample_raw)
       = Inr (''20220509'', ''roma masters'', ''sf'', [''100644'', ''104925''], ''281'', ''6-3 6-4'')"
    by code_simp
  show ?thesis
    using l t dual_path_equivalence [OF l] by simp
qed

section \<open>Properties: deduplication\<close>

lemma dedup_loop_total:
  "\<forall>r\<in>set rows. \<not> isl (make_match_signature r) \<Longrightarrow> \<exists>out. dedup_loop seen acc rows = Inr out"
proof (induction rows arbitrary: seen acc)
  case Nil
  then show ?case by simp
next
  case (Cons r rows)
  then obtain k where k: "make_match_signature r = Inr k"
    by (cases "make_match_signature r") auto
  from Cons show ?case by (simp add: k)
qed

lemma dedup_loop_result:
  assumes "dedup_loop seen acc rows = Inr out"
  shows "\<exists>ys. out = acc @ ys \<and> subseq ys rows
           \<and> distinct (map make_match_signature ys)
           \<and> (\<forall>r\<in>set ys. \<exists>k. make_match_signature r = Inr k \<and> k \<notin> seen)
           \<and> (\<forall>r\<in>set rows. \<exists>k. make_match_signature r = Inr k
                  \<and> (k \<in> seen \<or> Inr k \<in> make_match_signature ` set ys))
           \<and> (\<forall>r\<in>set ys. find (\<lambda>r'. make_match_signature r' = make_match_signature r) rows = Some r)"
  using assms
proof (induction rows arbitrary: seen acc)
  case Nil
  then show ?case by simp
next
  case (Cons x rows)
  then obtain k where k: "make_match_signature x = Inr k"
    by (cases "make_match_signature x") auto
  show ?case
  proof (cases "k \<in> seen")
    case True
    with Cons.prems k have "dedup_loop seen acc rows = Inr out" by simp
    from Cons.IH [OF this] obtain ys where ys: "out = acc @ ys" "subseq ys rows"
      "distinct (map make_match_signature ys)"
      "\<forall>r\<in>set ys. \<exists>k. make_match_signature r = Inr k \<and> k \<notin> seen"
      "\<forall>r\<in>set rows. \<exists>k. make_match_signature r = Inr k
                  \<and> (k \<in> seen \<or> Inr k \<in> make_match_signature ` set ys)"
      "\<forall>r\<in>set ys. find (\<lambda>r'. make_match_signature r' = make_match_signature r) rows = Some r"
      by blast
    have ne: "\<forall>r\<in>set ys. make_match_signature x \<noteq> make_match_signature r"
      using ys(4) True k by (auto simp del: split_paired_Ex split_paired_All)
    show ?thesis
    proof (intro exI [of _ ys] conjI)
      show "out = acc @ ys" by (rule ys(1))
      show "subseq ys (x # rows)" using ys(2) by (rule list_emb_Cons)
      show "distinct (map make_match_signature ys)" by (rule ys(3))
      show "\<forall>r\<in>set ys. \<exists>k. make_match_signature r = Inr k \<and> k \<notin> seen" by (rule ys(4))
      show "\<forall>r\<in>set (x # rows). \<exists>k. make_match_signature r = Inr k
                  \<and> (k \<in> seen \<or> Inr k \<in> make_match_signature ` set ys)"
        using ys(5) k True by (simp del: split_paired_Ex split_paired_All)
      show "\<forall>r\<in>set ys. find (\<lambda>r'. make_match_signature r' = make_match_signature r) (x # rows) = Some r"
        using ys(6) ne by simp
    qed
  next
    case False
    with Cons.prems k have "dedup_loop (insert k seen) (acc @ [x]) rows = Inr out" by simp
    from Cons.IH [OF this] obtain ys where ys: "out = (acc @ [x]) @ ys" "subseq ys rows"
      "distinct (map make_match_signature ys)"
      "\<forall>r\<in>set ys. \<exists>k'. make_match_signature r = Inr k' \<and> k' \<notin> insert k seen"
      "\<forall>r\<in>set rows. \<exists>k'. make_match_signature r = Inr k'
                  \<and> (k' \<in> insert k seen \<or> Inr k' \<in> make_match_signature ` set ys)"
      "\<forall>r\<in>set ys. find (\<lambda>r'. make_match_signature r' = make_match_signature r) rows = Some r"
      by blast
    have ne: "\<forall>r\<in>set ys. make_match_signature x \<noteq> make_match_signature r"
      using ys(4) k by (auto simp del: split_paired_Ex split_paired_All)
    show ?thesis
    proof (intro exI [of _ "x # ys"] conjI)
      show "out = acc @ x # ys" using ys(1) by simp
      show "subseq (x # ys) (x # rows)" using ys(2) by simp
      show "distinct (map make_match_signature (x # ys))" using ys(3) ne by auto
      show "\<forall>r\<in>set (x # ys). \<exists>k. make_match_signature r = Inr k \<and> k \<notin> seen"
        using ys(4) k False by (auto simp del: split_paired_Ex split_paired_All)
      show "\<forall>r\<in>set (x # rows). \<exists>k. make_match_signature r = Inr k
                  \<and> (k \<in> seen \<or> Inr k \<in> make_match_signature ` set (x # ys))"
        using ys(5) k by (auto simp del: split_paired_Ex split_paired_All)
      show "\<forall>r\<in>set (x # ys). find (\<lambda>r'. make_match_signature r' = make_match_signature r) (x # rows) = Some r"
        using ys(6) ne by auto
    qed
  qed
qed

lemma dedup_loop_distinct:
  assumes "distinct (map make_match_signature ys)"
    and "\<forall>r\<in>set ys. \<exists>k. make_match_signature r = Inr k \<and> k \<notin> seen"
  shows "dedup_loop seen acc ys = Inr (acc @ ys)"
  using assms
proof (induction ys arbitrary: seen acc)
  case Nil
  then show ?case by simp
next
  case (Cons y ys)
  then obtain k where k: "make_match_signature y = Inr k" "k \<notin> seen"
    by (auto simp del: split_paired_Ex split_paired_All)
  have "\<forall>r\<in>set ys. \<exists>k'. make_match_signature r = Inr k' \<and> k' \<notin> insert k seen"
  proof
    fix r assume r: "r \<in> set ys"
    with Cons.prems(2) obtain k' where k': "make_match_signature r = Inr k'" "k' \<notin> seen"
      by (auto simp del: split_paired_Ex split_paired_All)
    from Cons.prems(1) r k(1) have "make_match_signature r \<noteq> Inr k"
      by (auto simp: image_iff)
    with k' have "k' \<noteq> k" by auto
    with k' show "\<exists>k'. make_match_signature r = Inr k' \<and> k' \<notin> insert k seen"
      by (auto simp del: split_paired_Ex split_paired_All)
  qed
  with Cons.IH [of "insert k seen" "acc @ [y]"] Cons.prems(1) k show ?case by simp
qed

lemma sample_row_signatures:
  "make_match_signature row_a = Inr (''20220509'', ''roma'', ''f'', [''104925'', ''126774''], ''300'', ''6-0 7-6'')"
  "make_match_signature row_b = Inr (''20220509'', ''roma'', ''f'', [''104925'', ''126774''], ''300'', ''6-0 7-6'')"
  "make_match_signature row_c = Inr (''20220509'', ''roma'', ''sf'', [''100644'', ''104925''], ''299'', ''6-3 6-4'')"
  by (code_simp+)

text \<open>
  Claim C3 (dedup idempotence and stability). Deduplicating twice is deduplicating
  once, also when a signature raises. When every row has a signature, the
  deduplication returns a list \<open>out\<close> that is a fixed point of the deduplication, is a
  subsequence of the input, has pairwise distinct signatures, has the same set of
  signatures as the input, and holds for each of its rows the first row of the input
  with that signature (the row itself, so its fields are unchanged).
\<close>

theorem dedup_idempotent_stable:
  "err_bind (deduplicate_matches rows) deduplicate_matches = deduplicate_matches rows
   \<and> ((\<forall>r\<in>set rows. \<not> isl (make_match_signature r)) \<longrightarrow>
       (\<exists>out. deduplicate_matches rows = Inr out
          \<and> deduplicate_matches out = Inr out
          \<and> subseq out rows
          \<and> distinct (map make_match_signature out)
          \<and> make_match_signature ` set out = make_match_signature ` set rows
          \<and> (\<forall>r\<in>set out.
                find (\<lambda>r'. make_match_signature r' = make_match_signature r) rows = Some r)))"
proof -
  have fix_point: "deduplicate_matches out = Inr out
          \<and> subseq out rows
          \<and> distinct (map make_match_signature out)
          \<and> make_match_signature ` set out = make_match_signature ` set rows
          \<and> (\<forall>r\<in>set out.
                find (\<lambda>r'. make_match_signature r' = make_match_signature r) rows = Some r)"
    if out: "deduplicate_matches rows = Inr out" for out
  proof -
    from out have "dedup_loop {} [] rows = Inr out"
      by (simp add: deduplicate_matches_def)
    from dedup_loop_result [OF this] obtain ys where ys: "out = [] @ ys" "subseq ys rows"
      "distinct (map make_match_signature ys)"
      "\<forall>r\<in>set ys. \<exists>k. make_match_signature r = Inr k \<and> k \<notin> {}"
      "\<forall>r\<in>set rows. \<exists>k. make_match_signature r = Inr k
                  \<and> (k \<in> {} \<or> Inr k \<in> make_match_signature ` set ys)"
      "\<forall>r\<in>set ys. find (\<lambda>r'. make_match_signature r' = make_match_signature r) rows = Some r"
      by blast
    from ys(1) have eq: "ys = out" by simp
    note sub = ys(2) [unfolded eq] and dist = ys(3) [unfolded eq] and sigs = ys(4) [unfolded eq]
      and cover = ys(5) [unfolded eq] and first = ys(6) [unfolded eq]
    have "dedup_loop {} [] out = Inr ([] @ out)"
      using dist sigs by (rule dedup_loop_distinct)
    then have idem: "deduplicate_matches out = Inr out"
      by (simp add: deduplicate_matches_def)
    have "set out \<subseteq> set rows"
    proof
      fix x assume "x \<in> set out"
      with sub obtain y where "y \<in> set rows" "x = y" by (rule list_emb_set)
      then show "x \<in> set rows" by simp
    qed
    then have "make_match_signature ` set out \<subseteq> make_match_signature ` set rows"
      by auto
    moreover have "make_match_signature ` set rows \<subseteq> make_match_signature ` set out"
    proof
      fix s assume "s \<in> make_match_signature ` set rows"
      then obtain r where r: "r \<in> set rows" "s = make_match_signature r" by blast
      with cover obtain k where "make_match_signature r = Inr k"
        "Inr k \<in> make_match_signature ` set out"
        by blast
      with r show "s \<in> make_match_signature ` set out" by simp
    qed
    ultimately have "make_match_signature ` set out = make_match_signature ` set rows"
      by (rule subset_antisym)
    with idem sub dist first show ?thesis
      by (intro conjI)
  qed
  have "err_bind (deduplicate_matches rows) deduplicate_matches = deduplicate_matches rows"
  proof (cases "deduplicate_matches rows")
    case (Inl e)
    then show ?thesis by (simp add: err_bind_def)
  next
    case (Inr out)
    with fix_point [OF Inr] show ?thesis by (simp add: err_bind_def)
  qed
  moreover have "\<exists>out. deduplicate_matches rows = Inr out
          \<and> deduplicate_matches out = Inr out
          \<and> subseq out rows
          \<and> distinct (map make_match_signature out)
          \<and> make_match_signature ` set out = make_match_signature ` set rows
          \<and> (\<forall>r\<in>set out.
                find (\<lambda>r'. make_match_signature r' = make_match_signature r) rows = Some r)"
    if "\<forall>r\<in>set rows. \<not> isl (make_match_signature r)"
  proof -
    from dedup_loop_total [OF that, of "{}" "[]"]
    obtain out where "deduplicate_matches rows = Inr out"
      by (auto simp: deduplicate_matches_def)
    with fix_point [OF this] show ?thesis by blast
  qed
  ultimately show ?thesis by blast
qed

theorem dedup_idempotent_stable_witness:
  "\<not> isl (make_match_signature row_a) \<and> \<not> isl (make_match_signature row_b)
   \<and> \<not> isl (make_match_signature row_c)
   \<and> deduplicate_matches [row_a, row_b, row_c] = Inr [row_a, row_c]
   \<and> deduplicate_matches [row_a, row_c] = Inr [row_a, row_c]
   \<and> subseq [row_a, row_c] [row_a, row_b, row_c]"
proof -
  have h: "\<forall>r\<in>set [row_a, row_b, row_c]. \<not> isl (make_match_signature r)"
    by (simp add: sample_row_signatures)
  have d: "deduplicate_matches [row_a, row_b, row_c] = Inr [row_a, row_c]"
    by (simp add: deduplicate_matches_def sample_row_signatures)
  from dedup_idempotent_stable [of "[row_a, row_b, row_c]"] h d show ?thesis
    by auto
qed

section \<open>Properties of the filter context\<close>

lemma surface_keywords_codes:
  "(key, code) \<in> set SURFACE_KEYWORDS \<Longrightarrow> code \<in> VALID_SURFACE_CODES"
  by (auto simp: SURFACE_KEYWORDS_def VALID_SURFACE_CODES_def)

lemma extract_surface_codomain:
  "extract_surface_from_text s = Some code \<Longrightarrow> code \<in> VALID_SURFACE_CODES"
proof -
  assume a: "extract_surface_from_text s = Some code"
  then obtain kv where kv: "find (\<lambda>(key, value). sublist key (py_lower s)) SURFACE_KEYWORDS = Some kv"
    and c: "code = snd kv"
    by (auto simp: extract_surface_from_text_def Let_def split: if_splits)
  from kv have "kv \<in> set SURFACE_KEYWORDS"
    by (auto simp: find_Some_iff in_set_conv_nth)
  with c surface_keywords_codes [of "fst kv" "snd kv"] show ?thesis by simp
qed

lemma normalize_surface_codomain:
  "normalize_surface_value v = Some code \<Longrightarrow> code \<in> VALID_SURFACE_CODES"
  by (auto simp: normalize_surface_value_def split: if_splits option.splits
      dest: map_of_SomeD surface_keywords_codes extract_surface_codomain)

lemma message_surface_codomain:
  "message_surface (build_filter_context tr) = PStr code \<Longrightarrow> code \<in> VALID_SURFACE_CODES"
  by (auto simp: build_filter_context_def Let_def opt_str_def
      split: if_splits option.splits list.splits
      dest: normalize_surface_codomain extract_surface_codomain)

lemma message_surface_shape:
  "message_surface (build_filter_context tr) = PNone
   \<or> (\<exists>code. message_surface (build_filter_context tr) = PStr code)"
  by (auto simp: build_filter_context_def Let_def opt_str_def
      split: if_splits option.splits list.splits)

text \<open>
  Claim C10 (closed surface codomain). For every value, \<^verbatim>\<open>normalize_surface_value\<close> and
  \<^verbatim>\<open>extract_surface_from_text\<close> return \<^verbatim>\<open>None\<close> or one of the four surface codes of
  the database, and so the message-derived surface of every filter context is
  \<^verbatim>\<open>None\<close> or one of these codes.
\<close>

theorem surface_codomain_closed:
  "normalize_surface_value v \<in> insert None (Some ` VALID_SURFACE_CODES)
   \<and> extract_surface_from_text s \<in> insert None (Some ` VALID_SURFACE_CODES)
   \<and> message_surface (build_filter_context tr) \<in> insert PNone (PStr ` VALID_SURFACE_CODES)
   \<and> VALID_SURFACE_CODES = {''Hard'', ''Grass'', ''Clay'', ''Carpet''}"
proof (intro conjI)
  show "normalize_surface_value v \<in> insert None (Some ` VALID_SURFACE_CODES)"
    using normalize_surface_codomain [of v] by (cases "normalize_surface_value v") auto
  show "extract_surface_from_text s \<in> insert None (Some ` VALID_SURFACE_CODES)"
    using extract_surface_codomain [of s] by (cases "extract_surface_from_text s") auto
  show "message_surface (build_filter_context tr) \<in> insert PNone (PStr ` VALID_SURFACE_CODES)"
    using message_surface_shape [of tr] message_surface_codomain [of tr] by auto
  show "VALID_SURFACE_CODES = {''Hard'', ''Grass'', ''Clay'', ''Carpet''}"
    by (rule VALID_SURFACE_CODES_def)
qed

text \<open>
  Claim C5 (explicit-versus-remembered merge). When the message-derived year is absent
  and the slot memory holds the year "2022", the context built under the intent
  \<^verbatim>\<open>inform_filters\<close> has the effective year "2022" and \<^verbatim>\<open>explicit_year\<close> false; under
  any other intent it has the effective year \<^verbatim>\<open>None\<close> and \<^verbatim>\<open>explicit_year\<close> false.
\<close>

theorem explicit_vs_remembered_merge:
  assumes "message_year (build_filter_context tr) = PNone"
    and "slots tr ''year'' = PStr ''2022''"
  shows "(intent_name (build_filter_context tr) = ''inform_filters'' \<longrightarrow>
            year (build_filter_context tr) = PStr ''2022''
            \<and> \<not> explicit_year (build_filter_context tr))
       \<and> (intent_name (build_filter_context tr) \<noteq> ''inform_filters'' \<longrightarrow>
            year (build_filter_context tr) = PNone
            \<and> \<not> explicit_year (build_filter_context tr))"
  using assms
  by (auto simp: build_filter_context_def Let_def py_or_def split: if_splits)

lemma tracker_inform_context:
  "message_year (build_filter_context tracker_inform) = PNone"
  "slots tracker_inform ''year'' = PStr ''2022''"
  "intent_name (build_filter_context tracker_inform) = ''inform_filters''"
  "message_surface (build_filter_context tracker_inform) = PStr ''Clay''"
  by (code_simp+)

lemma tracker_fresh_context:
  "message_year (build_filter_context tracker_fresh) = PNone"
  "slots tracker_fresh ''year'' = PStr ''2022''"
  "intent_name (build_filter_context tracker_fresh) = ''player_stats''"
  "message_surface (build_filter_context tracker_fresh) = PStr ''Grass''"
  by (code_simp+)

theorem explicit_vs_remembered_merge_witness:
  "year (build_filter_context tracker_inform) = PStr ''2022''
   \<and> \<not> explicit_year (build_filter_context tracker_inform)
   \<and> year (build_filter_context tracker_fresh) = PNone
   \<and> \<not> explicit_year (build_filter_context tracker_fresh)"
  using explicit_vs_remembered_merge [OF tracker_inform_context(1,2)]
    explicit_vs_remembered_merge [OF tracker_fresh_context(1,2)]
  by (simp add: tracker_inform_context(3) tracker_fresh_context(3))

theorem surface_codomain_closed_witness:
  "message_surface (build_filter_context tracker_inform) = PStr ''Clay''
   \<and> message_surface (build_filter_context tracker_inform) \<in> insert PNone (PStr ` VALID_SURFACE_CODES)"
  using surface_codomain_closed [of PNone "[]" tracker_inform]
  by (simp add: tracker_inform_context(4))

section \<open>Properties: player resolution\<close>

text \<open>
  Claim C6 (short-query rejection). For \<^verbatim>\<open>None\<close>, and for every string whose trimmed
  length is below 2 (the empty string among them), player resolution returns
  \<^verbatim>\<open>(None, None)\<close> and executes no statement, whatever the data source holds.
\<close>

theorem short_query_rejected:
  "validate_and_find_player None cur = (Inr (PNone, PNone), [])
   \<and> (length (py_strip name) < 2 \<longrightarrow>
        validate_and_find_player (Some name) cur = (Inr (PNone, PNone), []))"
  by (simp add: validate_and_find_player_def)

theorem short_query_rejected_witness:
  "length (py_strip '' a '') < 2
   \<and> validate_and_find_player (Some '' a '') cursor_always = (Inr (PNone, PNone), [])
   \<and> validate_and_find_player (Some '''') cursor_always = (Inr (PNone, PNone), [])
   \<and> validate_and_find_player (Some ''Sinner'') cursor_always
       = (Inr (PStr ''206173'', PStr ''Jannik Sinner''), [ExactName ''Sinner''])"
proof -
  have l: "length (py_strip '' a '') < 2" "length (py_strip '''') < 2"
    by (code_simp+)
  have s: "validate_and_find_player (Some ''Sinner'') cursor_always
       = (Inr (PStr ''206173'', PStr ''Jannik Sinner''), [ExactName ''Sinner''])"
    by code_simp
  from short_query_rejected [of cursor_always "'' a ''"] short_query_rejected [of cursor_always "''''"]
    l s show ?thesis by simp
qed

section \<open>Properties: heuristic text extractor\<close>

lemma tokenize_loop_append:
  "result \<noteq> [] \<Longrightarrow> tokenize_loop result toks
     = result @ filter (\<lambda>t. py_lower t \<notin> CONNECTORS \<and> \<not> py_isdigit t) toks"
  by (induction toks arbitrary: result) (auto simp: Let_def)

lemma tokenize_loop_empty:
  "tokenize_loop [] toks
     = dropWhile (\<lambda>t. py_lower t \<in> PREFIX_FILLERS)
         (filter (\<lambda>t. py_lower t \<notin> CONNECTORS \<and> \<not> py_isdigit t) toks)"
  by (induction toks) (auto simp: Let_def tokenize_loop_append)

lemma split_run_nonempty: "[] \<notin> set (split_run cur s)"
  by (induction s arbitrary: cur) auto

lemma py_split_nonempty: "filter (\<lambda>tok. tok \<noteq> []) (py_split s) = py_split s"
  using split_run_nonempty [of "[]" s] by (simp add: py_split_def filter_id_conv) metis

text \<open>
  Claim C7 (tokenizer leading-filler rule), as the code has it. Tokenization blanks
  every character other than letters, apostrophes, hyphens and spaces, splits on
  whitespace, drops the pure-numeric tokens and the connector words, and then drops
  every filler token that stands before the first kept token: all the leading fillers,
  not one. A filler after the first kept token stays.
\<close>

theorem tokenize_drops_all_leading_fillers:
  "tokenize text
     = dropWhile (\<lambda>t. py_lower t \<in> PREFIX_FILLERS)
         (filter (\<lambda>t. py_lower t \<notin> CONNECTORS \<and> \<not> py_isdigit t)
            (py_split (blank_other_chars text)))"
  by (simp add: tokenize_def Let_def py_split_nonempty tokenize_loop_empty)

theorem tokenize_drops_all_leading_fillers_witness:
  "tokenize ''Il risultato di Sinner vs il Zverev 2025''
     = dropWhile (\<lambda>t. py_lower t \<in> PREFIX_FILLERS)
         [''Il'', ''risultato'', ''di'', ''Sinner'', ''il'', ''Zverev'']
   \<and> tokenize ''Il risultato di Sinner vs il Zverev 2025'' = [''Sinner'', ''il'', ''Zverev'']"
proof -
  have f: "filter (\<lambda>t. py_lower t \<notin> CONNECTORS \<and> \<not> py_isdigit t)
            (py_split (blank_other_chars ''Il risultato di Sinner vs il Zverev 2025''))
        = [''Il'', ''risultato'', ''di'', ''Sinner'', ''il'', ''Zverev'']"
    by code_simp
  have d: "dropWhile (\<lambda>t. py_lower t \<in> PREFIX_FILLERS)
         [''Il'', ''risultato'', ''di'', ''Sinner'', ''il'', ''Zverev''] = [''Sinner'', ''il'', ''Zverev'']"
    by code_simp
  show ?thesis
    using tokenize_drops_all_leading_fillers [of "''Il risultato di Sinner vs il Zverev 2025''"]
    by (simp only: f d)
qed

text \<open>The claim as stated fails: of two leading fillers the code drops both, where
  the one-filler reading keeps the second.\<close>

theorem tokenize_second_filler_counterexample:
  "tokenize ''il la Sinner'' = [''Sinner'']
   \<and> ''la'' \<notin> set (tokenize ''il la Sinner'')
   \<and> tokenize_single_filler ''il la Sinner'' = [''la'', ''Sinner'']"
  by code_simp

subsection \<open>The extractor example\<close>

lemma example_search:
  "search_pair ''Rinderknech vs Zverev a Shanghai 2025''
     = Some (''Rinderknech'', ''Zverev a Shanghai 2025'')"
  by code_simp

lemma example_left: "clean_player_fragment ''Rinderknech'' True = ''Rinderknech''"
  by code_simp

lemma example_right: "clean_player_fragment ''Zverev a Shanghai 2025'' False = ''Zverev''"
  by code_simp

lemma example_results:
  "collect_results [] [''Rinderknech'', ''Zverev''] = [''Rinderknech'', ''Zverev'']"
  by code_simp

lemma example_words:
  "py_split ''Rinderknech'' = [''Rinderknech'']" "py_split ''Zverev'' = [''Zverev'']"
  by code_simp+

text \<open>
  Claim C9 (extractor example). From the text "Rinderknech vs Zverev a Shanghai 2025"
  the extractor returns exactly the two names "Rinderknech" and "Zverev"; none of the
  trailing words "a", "Shanghai", "2025" is a word of either name.
\<close>

theorem extract_pair_example:
  "extract_players_from_text (Some ''Rinderknech vs Zverev a Shanghai 2025'')
     = [''Rinderknech'', ''Zverev'']
   \<and> list_all (\<lambda>name. ''a'' \<notin> set (py_split name) \<and> ''Shanghai'' \<notin> set (py_split name)
                  \<and> ''2025'' \<notin> set (py_split name))
        (extract_players_from_text (Some ''Rinderknech vs Zverev a Shanghai 2025''))"
proof -
  have e: "extract_players_from_text (Some ''Rinderknech vs Zverev a Shanghai 2025'')
     = [''Rinderknech'', ''Zverev'']"
    by (simp add: extract_players_from_text_def example_search example_left example_right
        example_results Let_def del: collect_results.simps)
  show ?thesis
    unfolding e by (simp add: example_words)
qed

section \<open>Properties of the aggregation\<close>

lemma err_bind_no_zero_division:
  assumes "m \<noteq> Inl ZeroDivisionError" and "\<And>x. f x \<noteq> Inl ZeroDivisionError"
  shows "err_bind m f \<noteq> Inl ZeroDivisionError"
  using assms by (cases m) (simp_all add: err_bind_def)

lemma guarded_pct_value:
  "guarded_pct a b = Inr (if b \<noteq> 0 then of_int a / of_int b * 100 else 0)"
  by (simp add: guarded_pct_def py_truediv_def err_bind_def)

lemma dict_item_no_zero_division: "dict_item d k \<noteq> Inl ZeroDivisionError"
  by (simp add: dict_item_def split: option.splits)

lemma strip_method_no_zero_division: "strip_method v \<noteq> Inl ZeroDivisionError"
  by (cases v) simp_all

lemma is_winner_of_no_zero_division: "is_winner_of m p \<noteq> Inl ZeroDivisionError"
  unfolding is_winner_of_def
  by (rule err_bind_no_zero_division) (simp_all add: dict_item_no_zero_division)

lemma side_cell_no_zero_division: "side_cell m w a b \<noteq> Inl ZeroDivisionError"
  unfolding side_cell_def
  by (rule err_bind_no_zero_division) (simp_all add: dict_item_no_zero_division)

lemma aggregate_step_no_zero_division:
  "aggregate_step year_filter p acc m \<noteq> Inl ZeroDivisionError"
  unfolding aggregate_step_def Let_def
  by (intro err_bind_no_zero_division is_winner_of_no_zero_division
      strip_method_no_zero_division side_cell_no_zero_division) simp

lemma aggregate_loop_no_zero_division:
  "aggregate_loop year_filter p acc ms \<noteq> Inl ZeroDivisionError"
proof (induction ms arbitrary: acc)
  case Nil
  show ?case by simp
next
  case (Cons m ms)
  show ?case
    unfolding aggregate_loop.simps
    by (rule err_bind_no_zero_division) (rule aggregate_step_no_zero_division, rule Cons.IH)
qed

lemma count_wins_no_zero_division: "count_wins p rows \<noteq> Inl ZeroDivisionError"
proof (induction rows)
  case Nil
  show ?case by simp
next
  case (Cons r rows)
  show ?case
    unfolding count_wins.simps
    by (intro err_bind_no_zero_division is_winner_of_no_zero_division Cons.IH) simp
qed

lemma player_stats_block_no_zero_division:
  "player_stats_block rows player_id year_filter \<noteq> Inl ZeroDivisionError"
proof (cases "rows = []")
  case True
  then show ?thesis by (simp add: player_stats_block_def)
next
  case False
  then have d: "py_truediv a (int (length rows)) \<noteq> Inl ZeroDivisionError" for a
    by (simp add: py_truediv_def)
  have "err_bind (count_wins (py_str player_id) rows) (\<lambda>wins.
        err_bind (Inr (if int (length rows) \<noteq> 0
                       then of_int wins / of_int (int (length rows)) * 100 else 0)) (\<lambda>win_rate.
        err_bind (aggregate_loop year_filter (py_str player_id) initial_counters rows) (\<lambda>c.
        err_bind (py_truediv (sum_aces c) (int (length rows))) (\<lambda>ace_avg.
        err_bind (py_truediv (sum_dfs c) (int (length rows))) (\<lambda>df_avg.
        Inr (Report
               \<lparr> total_rows = int (length rows), wins = wins,
                 losses = int (length rows) - wins, win_rate = win_rate, counts = c,
                 first_in_pct = (if sum_svpt c \<noteq> 0
                                 then of_int (sum_1st_in c) / of_int (sum_svpt c) * 100 else 0),
                 first_won_pct = (if sum_1st_in c \<noteq> 0
                                  then of_int (sum_1st_won c) / of_int (sum_1st_in c) * 100 else 0),
                 second_won_pct = (if sum_svpt c - sum_1st_in c \<noteq> 0
                                   then of_int (sum_2nd_won c) / of_int (sum_svpt c - sum_1st_in c) * 100
                                   else 0),
                 bp_saved_pct = (if sum_bp_faced c \<noteq> 0
                                 then of_int (sum_bp_saved c) / of_int (sum_bp_faced c) * 100 else 0) \<rparr>
               ace_avg df_avg)))))) \<noteq> Inl ZeroDivisionError"
    by (intro err_bind_no_zero_division count_wins_no_zero_division
        aggregate_loop_no_zero_division d) simp_all
  with False show ?thesis
    by (simp add: player_stats_block_def Let_def guarded_pct_value err_bind_def
        split: sum.splits)
qed

lemma player_stats_block_report:
  assumes "player_stats_block rows player_id year_filter = Inr (Report s ace_avg df_avg)"
  shows "rows \<noteq> [] \<and> total_rows s = int (length rows)
       \<and> win_rate s = of_int (wins s) / of_int (total_rows s) * 100
       \<and> (sum_svpt (counts s) = 0 \<longrightarrow> first_in_pct s = 0)
       \<and> (sum_1st_in (counts s) = 0 \<longrightarrow> first_won_pct s = 0)
       \<and> (sum_svpt (counts s) - sum_1st_in (counts s) = 0 \<longrightarrow> second_won_pct s = 0)
       \<and> (sum_bp_faced (counts s) = 0 \<longrightarrow> bp_saved_pct s = 0)"
proof (cases "rows = []")
  case True
  with assms show ?thesis by (simp add: player_stats_block_def)
next
  case False
  with assms show ?thesis
    by (auto simp: player_stats_block_def Let_def guarded_pct_value py_truediv_def err_bind_def
        split: sum.splits)
qed

lemma player_stats_block_empty:
  "player_stats_block [] player_id year_filter = Inr NoData"
  by (simp add: player_stats_block_def)

lemma player_stats_block_walkover:
  "player_stats_block [walkover_row] (PInt 1) PNone = Inr (Report walkover_stats 0 0)"
  by code_simp

text \<open>
  Claim C8 (percentage guards), as the code has it. For the empty list the statistics
  block computes nothing: it reports that no data is available. For every list it
  never raises \<^verbatim>\<open>ZeroDivisionError\<close>. When it produces statistics, the list is not empty,
  the total is its length, the win rate is wins / total * 100, and each of the four
  percentages is 0.0 when its denominator (the serve points, the first serves in, the
  serve points minus the first serves in, the break points faced) is 0.
\<close>

theorem percentage_guards_after_no_data:
  "player_stats_block [] player_id year_filter = Inr NoData
   \<and> player_stats_block rows player_id year_filter \<noteq> Inl ZeroDivisionError
   \<and> (\<forall>s ace_avg df_avg.
         player_stats_block rows player_id year_filter = Inr (Report s ace_avg df_avg) \<longrightarrow>
           rows \<noteq> [] \<and> total_rows s = int (length rows)
         \<and> win_rate s = of_int (wins s) / of_int (total_rows s) * 100
         \<and> (sum_svpt (counts s) = 0 \<longrightarrow> first_in_pct s = 0)
         \<and> (sum_1st_in (counts s) = 0 \<longrightarrow> first_won_pct s = 0)
         \<and> (sum_svpt (counts s) - sum_1st_in (counts s) = 0 \<longrightarrow> second_won_pct s = 0)
         \<and> (sum_bp_faced (counts s) = 0 \<longrightarrow> bp_saved_pct s = 0))"
proof (intro conjI)
  show "player_stats_block [] player_id year_filter = Inr NoData"
    by (rule player_stats_block_empty)
  show "player_stats_block rows player_id year_filter \<noteq> Inl ZeroDivisionError"
    by (rule player_stats_block_no_zero_division)
  show "\<forall>s ace_avg df_avg.
         player_stats_block rows player_id year_filter = Inr (Report s ace_avg df_avg) \<longrightarrow>
           rows \<noteq> [] \<and> total_rows s = int (length rows)
         \<and> win_rate s = of_int (wins s) / of_int (total_rows s) * 100
         \<and> (sum_svpt (counts s) = 0 \<longrightarrow> first_in_pct s = 0)
         \<and> (sum_1st_in (counts s) = 0 \<longrightarrow> first_won_pct s = 0)
         \<and> (sum_svpt (counts s) - sum_1st_in (counts s) = 0 \<longrightarrow> second_won_pct s = 0)
         \<and> (sum_bp_faced (counts s) = 0 \<longrightarrow> bp_saved_pct s = 0)"
  proof (intro allI impI)
    fix s ace_avg df_avg
    assume "player_stats_block rows player_id year_filter = Inr (Report s ace_avg df_avg)"
    then show "rows \<noteq> [] \<and> total_rows s = int (length rows)
         \<and> win_rate s = of_int (wins s) / of_int (total_rows s) * 100
         \<and> (sum_svpt (counts s) = 0 \<longrightarrow> first_in_pct s = 0)
         \<and> (sum_1st_in (counts s) = 0 \<longrightarrow> first_won_pct s = 0)
         \<and> (sum_svpt (counts s) - sum_1st_in (counts s) = 0 \<longrightarrow> second_won_pct s = 0)
         \<and> (sum_bp_faced (counts s) = 0 \<longrightarrow> bp_saved_pct s = 0)"
      by (rule player_stats_block_report)
  qed
qed

theorem percentage_guards_after_no_data_witness:
  "player_stats_block [walkover_row] (PInt 1) PNone = Inr (Report walkover_stats 0 0)
   \<and> total_rows walkover_stats = 1 \<and> win_rate walkover_stats = 100
   \<and> sum_svpt (counts walkover_stats) = 0 \<and> first_in_pct walkover_stats = 0
   \<and> sum_1st_in (counts walkover_stats) = 0 \<and> first_won_pct walkover_stats = 0
   \<and> second_won_pct walkover_stats = 0
   \<and> sum_bp_faced (counts walkover_stats) = 0 \<and> bp_saved_pct walkover_stats = 0"
proof -
  have z: "sum_svpt (counts walkover_stats) = 0" "sum_1st_in (counts walkover_stats) = 0"
    "sum_bp_faced (counts walkover_stats) = 0" "wins walkover_stats = 1"
    by (simp_all add: walkover_stats_def initial_counters_def)
  from percentage_guards_after_no_data [of "PInt 1" PNone "[walkover_row]"]
    player_stats_block_walkover
  have "total_rows walkover_stats = int (length [walkover_row])
       \<and> win_rate walkover_stats
           = of_int (wins walkover_stats) / of_int (total_rows walkover_stats) * 100
       \<and> (sum_svpt (counts walkover_stats) = 0 \<longrightarrow> first_in_pct walkover_stats = 0)
       \<and> (sum_1st_in (counts walkover_stats) = 0 \<longrightarrow> first_won_pct walkover_stats = 0)
       \<and> (sum_svpt (counts walkover_stats) - sum_1st_in (counts walkover_stats) = 0
            \<longrightarrow> second_won_pct walkover_stats = 0)
       \<and> (sum_bp_faced (counts walkover_stats) = 0 \<longrightarrow> bp_saved_pct walkover_stats = 0)"
    by blast
  with z player_stats_block_walkover show ?thesis by simp
qed

text \<open>The claim as stated fails: on the empty list the code produces no statistics,
  where the claim expects a total of 0 with every rate 0.0.\<close>

theorem empty_list_no_statistics_counterexample:
  "player_stats_block [] (PStr ''206173'') PNone = Inr NoData
   \<and> player_stats_block [] (PStr ''206173'') PNone \<noteq> Inr (Report zero_stats 0 0)"
  by (simp add: player_stats_block_def)

section \<open>Properties: rows used by the public operations\<close>

lemma stored_signatures:
  "make_match_signature (Tuple stored_once)
     = Inr (''20240508'', ''roma'', ''r32'', [''104925'', ''206173''], ''270'', ''6-3 6-4'')"
  "make_match_signature (Tuple stored_twice)
     = Inr (''20240508'', ''roma'', ''r32'', [''104925'', ''206173''], ''270'', ''6-3 6-4'')"
  by code_simp+

text \<open>
  Claim C4 (deduplication before presentation) does not hold of the code: the listing
  of one player's matches prints both stored rows of one contest, as do the tournament
  and the latest-matches listings, while the head-to-head and pair paths keep one.
\<close>

theorem single_listing_keeps_duplicates:
  "handle_single_rows [stored_once, stored_twice] = [Tuple stored_once, Tuple stored_twice]
   \<and> handle_tournament_rows [stored_once, stored_twice] = [Tuple stored_once, Tuple stored_twice]
   \<and> handle_latest_rows [stored_once, stored_twice] = [Tuple stored_once, Tuple stored_twice]
   \<and> stored_once \<noteq> stored_twice
   \<and> make_match_signature (Tuple stored_once) = make_match_signature (Tuple stored_twice)
   \<and> \<not> distinct (map make_match_signature (handle_single_rows [stored_once, stored_twice]))
   \<and> handle_pair_rows [stored_once, stored_twice] = Inr [Tuple stored_once]
   \<and> head_to_head_rows [stored_once, stored_twice] = Inr [Tuple stored_once]"
proof -
  have "stored_once \<noteq> stored_twice"
    by (simp add: stored_once_def stored_twice_def)
  then show ?thesis
    by (simp add: handle_single_rows_def handle_tournament_rows_def handle_latest_rows_def
        handle_pair_rows_def head_to_head_rows_def stored_signatures
        del: make_match_signature.simps)
qed

end
